theory Spec2Isabelle
  imports Complex_Main
begin

section \<open>Timeline items: tracks and frames of the timeline view\<close>

text \<open>
  A shallow embedding of \<^verbatim>\<open>sift/view/TimelineItems.py\<close>: the classes
  \<^verbatim>\<open>QTrackItem\<close> and \<^verbatim>\<open>QFrameItem\<close>, their geometry
  recomputation and their drag-and-drop handlers.

  Conventions of the embedding.
  \<^item> Python objects live in a store: an address is a natural number, and a world maps
    every address to a track object and to a frame object. A track holds its frames as a
    list of addresses, so that a frame reached through two paths is one object.
  \<^item> A \<^verbatim>\<open>datetime\<close> is the integer count of microseconds since
    \<^verbatim>\<open>datetime.min\<close>, a \<^verbatim>\<open>timedelta\<close> an integer count of
    microseconds: the resolution of both Python types, whose arithmetic is exact. Both types
    are bounded, and an operation whose result leaves the range raises
    \<^verbatim>\<open>OverflowError\<close>. All datetimes are taken to be naive.
  \<^item> Scene coordinates (\<^verbatim>\<open>float\<close>, Qt's \<^verbatim>\<open>qreal\<close>) are
    idealised as real numbers.
  \<^item> Calls into Qt are recorded by their effect on the item: \<^verbatim>\<open>setPos\<close>
    stores the position, \<^verbatim>\<open>prepareGeometryChange\<close> and
    \<^verbatim>\<open>update\<close> each advance a counter of notifications issued.
  \<^item> Calls to the module logger are left out: the logger is no part of the state of a
    track or a frame.
  \<^item> An exception is a value: a function that can raise returns a sum, with the
    exception on the left.
\<close>

subsection \<open>Values\<close>

type_synonym addr = nat
type_synonym datetime = int
type_synonym timedelta = int

datatype py_error = TypeError | OverflowError

text \<open>
  The range of \<^verbatim>\<open>datetime\<close>, from 0001-01-01 00:00:00 to
  9999-12-31 23:59:59.999999, and of \<^verbatim>\<open>timedelta\<close>, from -999999999 days to
  999999999 days 23:59:59.999999.
\<close>

definition datetime_max :: datetime where
  "datetime_max = 315537897599999999"

definition timedelta_min :: timedelta where
  "timedelta_min = - 86399999913600000000"

definition timedelta_max :: timedelta where
  "timedelta_max = 86399999999999999999"

definition is_datetime :: "int \<Rightarrow> bool" where
  "is_datetime t = (0 \<le> t \<and> t \<le> datetime_max)"

definition is_timedelta :: "int \<Rightarrow> bool" where
  "is_timedelta d = (timedelta_min \<le> d \<and> d \<le> timedelta_max)"

text \<open>
  The four operations on times that the items use: \<^verbatim>\<open>datetime + timedelta\<close>,
  \<^verbatim>\<open>datetime - timedelta\<close>, \<^verbatim>\<open>datetime - datetime\<close> and
  \<^verbatim>\<open>timedelta + timedelta\<close>.
\<close>

definition datetime_add :: "datetime \<Rightarrow> timedelta \<Rightarrow> py_error + datetime" where
  "datetime_add t d = (if is_datetime (t + d) then Inr (t + d) else Inl OverflowError)"

definition datetime_sub :: "datetime \<Rightarrow> timedelta \<Rightarrow> py_error + datetime" where
  "datetime_sub t d = (if is_datetime (t - d) then Inr (t - d) else Inl OverflowError)"

definition datetime_diff :: "datetime \<Rightarrow> datetime \<Rightarrow> py_error + timedelta" where
  "datetime_diff e s = (if is_timedelta (e - s) then Inr (e - s) else Inl OverflowError)"

definition timedelta_add :: "timedelta \<Rightarrow> timedelta \<Rightarrow> py_error + timedelta" where
  "timedelta_add a b = (if is_timedelta (a + b) then Inr (a + b) else Inl OverflowError)"

datatype QPointF = QPointF (point_x: real) (point_y: real)

datatype QRectF = QRectF (rect_left: real) (rect_top: real) (rect_width: real) (rect_height: real)

text \<open>
  Modelled from the spec: \<^verbatim>\<open>TimelineFrameState\<close> is imported from
  \<^verbatim>\<open>sift.view.TimelineCommon\<close>, which is not among the sources. The spec
  lists its members (section 3, Frame).
\<close>

datatype TimelineFrameState = UNKNOWN | AVAILABLE | READY | CURRENT | MISSING | ERROR

text \<open>
  \<^verbatim>\<open>TimelineCoordTransform\<close> is imported from the same missing module. The
  two methods the items call are taken as parameters: \<^verbatim>\<open>calc_pixel_x_pos(t, d)\<close>
  returns a pair (scene x, scene width), and is also called with the time alone (the second
  argument is then \<open>None\<close>); \<^verbatim>\<open>calc_pixel_duration(d)\<close> returns a width.
\<close>

record TimelineCoordTransform =
  calc_pixel_x_pos :: "datetime \<Rightarrow> timedelta option \<Rightarrow> real \<times> real"
  calc_pixel_duration :: "timedelta \<Rightarrow> real"

text \<open>
  A drag-and-drop event as the handlers see it: the MIME data it carries, a list of
  (format, bytes) entries, and the accepted flag that \<^verbatim>\<open>setAccepted\<close> writes.
  The kind of a payload is its format; its content is the bytes.
\<close>

type_synonym QMimeData = "(string \<times> string) list"

record QGraphicsSceneDragDropEvent =
  event_mimeData :: QMimeData
  event_accepted :: bool

definition hasFormat :: "QMimeData \<Rightarrow> string \<Rightarrow> bool" where
  "hasFormat mime mimetype = (mimetype \<in> set (map fst mime))"

definition setAccepted :: "QGraphicsSceneDragDropEvent \<Rightarrow> bool \<Rightarrow> QGraphicsSceneDragDropEvent" where
  "setAccepted event b = event\<lparr>event_accepted := b\<rparr>"

text \<open>
  \<^verbatim>\<open>QMimeData.data(mimetype)\<close> takes the MIME type as a required argument and
  returns the bytes stored under it (empty when there are none). Called with no argument,
  as \<^verbatim>\<open>dropEvent\<close> does, the binding raises \<^verbatim>\<open>TypeError\<close> before
  anything is read.
\<close>

definition QMimeData_data :: "QMimeData \<Rightarrow> string option \<Rightarrow> py_error + string" where
  "QMimeData_data mime mimetype =
     (case mimetype of
        None \<Rightarrow> Inl TypeError
      | Some m \<Rightarrow> Inr (case map_of mime m of None \<Rightarrow> [] | Some bytes \<Rightarrow> bytes))"

text \<open>
  What the items use of the missing module, taken as parameters: the two layout constants,
  the two MIME types, \<^verbatim>\<open>recv_mime(event, mimetype)\<close>, which returns the payload
  object of that type or \<^verbatim>\<open>None\<close> (here together with the event as it leaves
  it), and \<^verbatim>\<open>pkl.loads\<close>. A payload object is kept as the bytes it was read from.
\<close>

record TimelineCommon =
  DEFAULT_TRACK_HEIGHT :: real
  DEFAULT_FRAME_HEIGHT :: real
  MIMETYPE_TIMELINE_COLORMAP :: string
  MIMETYPE_TIMELINE_TRACK :: string
  recv_mime :: "QGraphicsSceneDragDropEvent \<Rightarrow> string
                 \<Rightarrow> string option \<times> QGraphicsSceneDragDropEvent"
  pkl_loads :: "string \<Rightarrow> py_error + string"

subsection \<open>Objects and the store\<close>

text \<open>
  The fields of \<^verbatim>\<open>QFrameItem\<close> that the modelled methods read or write, the
  position Qt keeps for the item, and the two notification counters. Titles, thumbnails,
  metadata and the uuid are never read by these methods and are left out.
\<close>

record QFrameItem =
  frame_state :: TimelineFrameState
  frame_track :: addr
  frame_scale :: TimelineCoordTransform
  frame_start :: datetime
  frame_duration :: timedelta
  frame_bounds :: QRectF
  frame_pos :: QPointF
  frame_updates :: nat
  frame_geometry_changes :: nat

record QTrackItem =
  frames :: "addr list"
  track_scale :: TimelineCoordTransform
  track_z :: int
  track_dragging :: bool
  track_bounds :: QRectF
  track_pos :: QPointF
  track_geometry_changes :: nat

record world =
  tracks :: "addr \<Rightarrow> QTrackItem"
  frame_items :: "addr \<Rightarrow> QFrameItem"

text \<open>
  The class attributes \<^verbatim>\<open>_left_pad = timedelta(hours=1)\<close> and
  \<^verbatim>\<open>_right_pad = timedelta(minutes=5)\<close>, in microseconds.
\<close>

definition left_pad :: timedelta where
  "left_pad = 3600000000"

definition right_pad :: timedelta where
  "right_pad = 300000000"

subsection \<open>QTrackItem: extent of the frames\<close>

definition td :: "QFrameItem \<Rightarrow> datetime \<times> timedelta" where
  "td f = (frame_start f, frame_duration f)"

definition iter_frame_children :: "world \<Rightarrow> addr \<Rightarrow> addr list" where
  "iter_frame_children w self = frames (tracks w self)"

text \<open>
  The loop of \<^verbatim>\<open>time_extent_of_frames\<close>, with its two accumulators
  \<^verbatim>\<open>s\<close> and \<^verbatim>\<open>e\<close>, both \<^verbatim>\<open>None\<close> at the start.
  Each round computes \<^verbatim>\<open>t + d\<close>, which can raise.
\<close>

fun extent_loop ::
  "(addr \<Rightarrow> QFrameItem) \<Rightarrow> addr list \<Rightarrow> datetime option \<Rightarrow> datetime option
    \<Rightarrow> py_error + (datetime option \<times> datetime option)" where
  "extent_loop fs [] s e = Inr (s, e)"
| "extent_loop fs (child # rest) s e =
     (case td (fs child) of (t, d) \<Rightarrow>
        (case datetime_add t d of
           Inl err \<Rightarrow> Inl err
         | Inr te \<Rightarrow>
             extent_loop fs rest
               (Some (case s of None \<Rightarrow> t | Some sv \<Rightarrow> min t sv))
               (Some (case e of None \<Rightarrow> te | Some ev \<Rightarrow> max ev te))))"

text \<open>
  After the loop: \<^verbatim>\<open>(None, None)\<close> when \<^verbatim>\<open>e\<close> is still
  \<^verbatim>\<open>None\<close>, else \<^verbatim>\<open>(s, e - s)\<close>. The subtraction would raise
  \<^verbatim>\<open>TypeError\<close> if \<^verbatim>\<open>s\<close> were \<^verbatim>\<open>None\<close> there.
\<close>

definition time_extent_of_frames ::
  "world \<Rightarrow> addr \<Rightarrow> py_error + (datetime option \<times> timedelta option)" where
  "time_extent_of_frames w self =
     (case extent_loop (frame_items w) (iter_frame_children w self) None None of
        Inl err \<Rightarrow> Inl err
      | Inr (s, None) \<Rightarrow> Inr (None, None)
      | Inr (None, Some ev) \<Rightarrow> Inl TypeError
      | Inr (Some sv, Some ev) \<Rightarrow>
          (case datetime_diff ev sv of
             Inl err \<Rightarrow> Inl err
           | Inr d \<Rightarrow> Inr (Some sv, Some d)))"

text \<open>The starts and the ends (start + duration) of a list of frames.\<close>

abbreviation starts :: "world \<Rightarrow> addr list \<Rightarrow> datetime set" where
  "starts w cs \<equiv> set (map (\<lambda>c. frame_start (frame_items w c)) cs)"

abbreviation ends :: "world \<Rightarrow> addr list \<Rightarrow> datetime set" where
  "ends w cs \<equiv> set (map (\<lambda>c. frame_start (frame_items w c) + frame_duration (frame_items w c)) cs)"

subsection \<open>QTrackItem: position and bounds\<close>

text \<open>
  \<^verbatim>\<open>update_pos_bounds\<close>. The arguments of the second call of
  \<^verbatim>\<open>calc_pixel_x_pos\<close>, \<^verbatim>\<open>t - self._left_pad\<close> and
  \<^verbatim>\<open>d + self._left_pad + self._right_pad\<close>, can raise; they are computed
  before the track is touched.
\<close>

definition update_pos_bounds :: "TimelineCommon \<Rightarrow> world \<Rightarrow> addr \<Rightarrow> py_error + world" where
  "update_pos_bounds cm w self =
     (case time_extent_of_frames w self of
        Inl err \<Rightarrow> Inl err
      | Inr (Some t, Some d) \<Rightarrow>
          (let tr = tracks w self;
               top = of_int (track_z tr) * DEFAULT_TRACK_HEIGHT cm;
               (frames_left, frames_width) = calc_pixel_x_pos (track_scale tr) t (Some d)
           in case datetime_sub t left_pad of
                Inl err \<Rightarrow> Inl err
              | Inr padded_t \<Rightarrow>
                  (case timedelta_add d left_pad of
                     Inl err \<Rightarrow> Inl err
                   | Inr d1 \<Rightarrow>
                       (case timedelta_add d1 right_pad of
                          Inl err \<Rightarrow> Inl err
                        | Inr padded_d \<Rightarrow>
                            (let (track_left, track_width) =
                                   calc_pixel_x_pos (track_scale tr) padded_t (Some padded_d);
                                 tr1 = tr\<lparr>track_geometry_changes :=
                                           Suc (track_geometry_changes tr)\<rparr>;
                                 tr2 = tr1\<lparr>track_pos :=
                                           QPointF frames_left (top + DEFAULT_TRACK_HEIGHT cm / 2)\<rparr>;
                                 tr3 = tr2\<lparr>track_bounds :=
                                           QRectF (track_left - frames_left)
                                             (- DEFAULT_TRACK_HEIGHT cm / 2)
                                             track_width (DEFAULT_TRACK_HEIGHT cm)\<rparr>
                             in Inr (w\<lparr>tracks := (tracks w)(self := tr3)\<rparr>)))))
      | Inr _ \<Rightarrow> Inr w)"

text \<open>
  \<^verbatim>\<open>update_frame_positions(*frames)\<close>: the frames passed, or the track's own
  frames when none is passed (an empty tuple is false in Python).
\<close>

fun position_loop ::
  "TimelineCoordTransform \<Rightarrow> real \<Rightarrow> addr list \<Rightarrow> (addr \<Rightarrow> QFrameItem)
    \<Rightarrow> (addr \<Rightarrow> QFrameItem)" where
  "position_loop sc myx [] fs = fs"
| "position_loop sc myx (frame # rest) fs =
     (case calc_pixel_x_pos sc (frame_start (fs frame)) None of (x, _) \<Rightarrow>
        position_loop sc myx rest
          (fs(frame := (fs frame)
                \<lparr>frame_geometry_changes := Suc (frame_geometry_changes (fs frame)),
                 frame_pos := QPointF (x - myx) 0\<rparr>)))"

definition update_frame_positions :: "world \<Rightarrow> addr \<Rightarrow> addr list \<Rightarrow> world" where
  "update_frame_positions w self args =
     (let tr = tracks w self;
          myx = point_x (track_pos tr);
          fl = (if args \<noteq> [] then args else iter_frame_children w self)
      in w\<lparr>frame_items := position_loop (track_scale tr) myx fl (frame_items w)\<rparr>)"

subsection \<open>QTrackItem: drag and drop\<close>

text \<open>
  \<^verbatim>\<open>set_colormap\<close> and \<^verbatim>\<open>insert_track_before\<close> only write a warning
  to the log ("not yet implemented"); they leave every object as it is.
\<close>

definition set_colormap :: "world \<Rightarrow> addr \<Rightarrow> string \<Rightarrow> world" where
  "set_colormap w self cmap = w"

definition insert_track_before :: "world \<Rightarrow> addr \<Rightarrow> string \<Rightarrow> world" where
  "insert_track_before w self track = w"

definition dragEnterEvent ::
  "TimelineCommon \<Rightarrow> world \<Rightarrow> addr \<Rightarrow> QGraphicsSceneDragDropEvent
    \<Rightarrow> world \<times> QGraphicsSceneDragDropEvent" where
  "dragEnterEvent cm w self event =
     (let w1 = w\<lparr>tracks := (tracks w)(self := (tracks w self)\<lparr>track_dragging := True\<rparr>)\<rparr>;
          mime = event_mimeData event
      in if hasFormat mime (MIMETYPE_TIMELINE_COLORMAP cm) then (w1, setAccepted event True)
         else if hasFormat mime (MIMETYPE_TIMELINE_TRACK cm) then (w1, setAccepted event True)
         else (w1, setAccepted event False))"

definition dragLeaveEvent ::
  "world \<Rightarrow> addr \<Rightarrow> QGraphicsSceneDragDropEvent \<Rightarrow> world \<times> QGraphicsSceneDragDropEvent" where
  "dragLeaveEvent w self event =
     (w\<lparr>tracks := (tracks w)(self := (tracks w self)\<lparr>track_dragging := False\<rparr>)\<rparr>, event)"

text \<open>
  \<^verbatim>\<open>dropEvent\<close>. An exception comes with the world and the event as they are
  when it is raised.
\<close>

definition dropEvent ::
  "TimelineCommon \<Rightarrow> world \<Rightarrow> addr \<Rightarrow> QGraphicsSceneDragDropEvent
    \<Rightarrow> (py_error \<times> world \<times> QGraphicsSceneDragDropEvent)
        + (world \<times> QGraphicsSceneDragDropEvent)" where
  "dropEvent cm w self event =
     (case recv_mime cm event (MIMETYPE_TIMELINE_COLORMAP cm) of
        (Some colormap, ev1) \<Rightarrow> Inr (set_colormap w self colormap, ev1)
      | (None, ev1) \<Rightarrow>
          (case recv_mime cm ev1 (MIMETYPE_TIMELINE_TRACK cm) of
             (new_track_before, ev2) \<Rightarrow>
               (let w1 = (case new_track_before of
                            Some track \<Rightarrow> insert_track_before w self track
                          | None \<Rightarrow> w)
                in case QMimeData_data (event_mimeData ev2) None of
                     Inl err \<Rightarrow> Inl (err, w1, ev2)
                   | Inr raw \<Rightarrow>
                       (case pkl_loads cm raw of
                          Inl err \<Rightarrow> Inl (err, w1, ev2)
                        | Inr content \<Rightarrow> Inr (w1, setAccepted ev2 False)))))"

subsection \<open>QFrameItem\<close>

text \<open>The setter of the \<^verbatim>\<open>state\<close> property.\<close>

definition state_setter :: "world \<Rightarrow> addr \<Rightarrow> TimelineFrameState \<Rightarrow> world" where
  "state_setter w self new_state =
     (let f = frame_items w self
      in if new_state \<noteq> frame_state f
         then w\<lparr>frame_items := (frame_items w)
                  (self := f\<lparr>frame_state := new_state, frame_updates := Suc (frame_updates f)\<rparr>)\<rparr>
         else w)"

text \<open>
  Qt compares two \<^verbatim>\<open>QRectF\<close> number by number with
  \<^verbatim>\<open>qFuzzyCompare\<close>: two numbers are taken as equal when their distance is at
  most the smaller of their magnitudes divided by 10^12.
\<close>

definition qFuzzyCompare :: "real \<Rightarrow> real \<Rightarrow> bool" where
  "qFuzzyCompare p1 p2 = (\<bar>p1 - p2\<bar> \<le> min \<bar>p1\<bar> \<bar>p2\<bar> / 1000000000000)"

definition QRectF_ne :: "QRectF \<Rightarrow> QRectF \<Rightarrow> bool" where
  "QRectF_ne r1 r2 =
     (\<not> qFuzzyCompare (rect_left r1) (rect_left r2) \<or>
      \<not> qFuzzyCompare (rect_top r1) (rect_top r2) \<or>
      \<not> qFuzzyCompare (rect_width r1) (rect_width r2) \<or>
      \<not> qFuzzyCompare (rect_height r1) (rect_height r2))"

text \<open>
  \<^verbatim>\<open>update_bounds\<close>. The stored bounds are never \<^verbatim>\<open>None\<close> (the class
  attribute is \<^verbatim>\<open>QRectF()\<close>), so the test is the comparison alone.
\<close>

definition update_bounds :: "TimelineCommon \<Rightarrow> world \<Rightarrow> addr \<Rightarrow> world" where
  "update_bounds cm w self =
     (let f = frame_items w self;
          left = 0;
          top = - DEFAULT_FRAME_HEIGHT cm / 2;
          height = DEFAULT_FRAME_HEIGHT cm;
          width = calc_pixel_duration (frame_scale f) (frame_duration f);
          old_bounds = frame_bounds f;
          new_bounds = QRectF left top width height
      in if QRectF_ne new_bounds old_bounds
         then w\<lparr>frame_items := (frame_items w)
                  (self := f\<lparr>frame_geometry_changes := Suc (frame_geometry_changes f),
                             frame_bounds := new_bounds\<rparr>)\<rparr>
         else w)"

subsection \<open>A concrete scene\<close>

text \<open>
  Modelled from the spec: the coordinate transform of the missing module, as section 4.1
  gives it: \<open>x = (t - origin_time) * pixels_per_second\<close> and
  \<open>w = d.total_seconds() * pixels_per_second\<close>, times being counted in microseconds
  here. It serves as the concrete transform of the examples below; the theorems hold for
  every transform.
\<close>

definition coord_transform :: "datetime \<Rightarrow> real \<Rightarrow> TimelineCoordTransform" where
  "coord_transform origin_time pixels_per_second =
     \<lparr>calc_pixel_x_pos = (\<lambda>t d.
          (real_of_int (t - origin_time) / 1000000 * pixels_per_second,
           (case d of None \<Rightarrow> 0 | Some dv \<Rightarrow> real_of_int dv / 1000000 * pixels_per_second))),
      calc_pixel_duration = (\<lambda>d. real_of_int d / 1000000 * pixels_per_second)\<rparr>"

text \<open>
  Modelled from the spec: an instance of the missing module for the examples. Its
  \<^verbatim>\<open>recv_mime\<close> recognises a payload by its kind (section 4.4): it returns the
  bytes stored under the MIME type, and \<^verbatim>\<open>None\<close> when the event carries none of
  that type, and leaves the event as it is.
\<close>

definition example_common :: TimelineCommon where
  "example_common =
     \<lparr>DEFAULT_TRACK_HEIGHT = 48, DEFAULT_FRAME_HEIGHT = 32,
      MIMETYPE_TIMELINE_COLORMAP = ''application/sift.timeline.colormap'',
      MIMETYPE_TIMELINE_TRACK = ''application/sift.timeline.track'',
      recv_mime = (\<lambda>event mimetype. (map_of (event_mimeData event) mimetype, event)),
      pkl_loads = (\<lambda>raw. Inr raw)\<rparr>"

text \<open>2017-01-01 00:00:00, the origin of the examples' transform.\<close>

definition epoch :: datetime where
  "epoch = 63618825600000000"

definition example_frame :: "addr \<Rightarrow> datetime \<Rightarrow> timedelta \<Rightarrow> QFrameItem" where
  "example_frame tr start dur =
     \<lparr>frame_state = UNKNOWN, frame_track = tr, frame_scale = coord_transform epoch 2,
      frame_start = start, frame_duration = dur, frame_bounds = QRectF 0 0 0 0,
      frame_pos = QPointF 0 0, frame_updates = 0, frame_geometry_changes = 0\<rparr>"

definition example_track :: "addr list \<Rightarrow> int \<Rightarrow> QTrackItem" where
  "example_track fs zv =
     \<lparr>frames = fs, track_scale = coord_transform epoch 2, track_z = zv, track_dragging = False,
      track_bounds = QRectF 0 0 0 0, track_pos = QPointF 0 0, track_geometry_changes = 0\<rparr>"

text \<open>
  Track 0 (z = 1) owns frame 0 (start 7 s after the epoch, 3 s long) and frame 1 (start 5 s
  after the epoch, 1 s long); track 1 (z = 0) is empty. Track 2 owns frame 2, which starts
  one second before \<^verbatim>\<open>datetime.max\<close> and is 2 s long; track 3 owns frame 3, which
  starts half an hour after \<^verbatim>\<open>datetime.min\<close> and is 1 s long. Every other track
  is empty. Nothing has been laid out yet: positions and bounds are Qt's defaults.
\<close>

definition example_world :: world where
  "example_world =
     \<lparr>tracks = (\<lambda>a. if a = 0 then example_track [0, 1] 1
                     else if a = 1 then example_track [] 0
                     else if a = 2 then example_track [2] 2
                     else if a = 3 then example_track [3] 3
                     else example_track [] (int a)),
      frame_items = (\<lambda>a. if a = 0 then example_frame 0 (epoch + 7000000) 3000000
                          else if a = 2 then example_frame 2 (datetime_max - 1000000) 2000000
                          else if a = 3 then example_frame 3 1800000000 1000000
                          else example_frame 0 (epoch + 5000000) 1000000)\<rparr>"

definition plain_text_drop :: QGraphicsSceneDragDropEvent where
  "plain_text_drop = \<lparr>event_mimeData = [(''text/plain'', ''hello'')], event_accepted = False\<rparr>"

definition track_drop :: QGraphicsSceneDragDropEvent where
  "track_drop =
     \<lparr>event_mimeData = [(''application/sift.timeline.track'', ''track 0'')],
      event_accepted = False\<rparr>"

section \<open>Properties\<close>

subsection \<open>The extent of the frames\<close>

text \<open>
  The loop returns the least start and the greatest end when every end is a datetime, and
  raises \<^verbatim>\<open>OverflowError\<close> as soon as one is not.
\<close>

lemma extent_loop_in_range:
  assumes "\<forall>c \<in> set cs. is_datetime (frame_start (frame_items w c) + frame_duration (frame_items w c))"
  shows "extent_loop (frame_items w) cs (Some s) (Some e) =
     Inr (Some (Min (insert s (starts w cs))), Some (Max (insert e (ends w cs))))"
  using assms
proof (induction cs arbitrary: s e)
  case Nil
  show ?case by simp
next
  case (Cons c cs)
  let ?t = "frame_start (frame_items w c)"
  let ?u = "frame_start (frame_items w c) + frame_duration (frame_items w c)"
  have m: "Min (insert (min ?t s) (starts w cs)) = Min (insert s (insert ?t (starts w cs)))"
    by (cases "starts w cs = {}") (simp_all add: min.commute min.left_commute min.assoc)
  have n: "Max (insert (max e ?u) (ends w cs)) = Max (insert e (insert ?u (ends w cs)))"
    by (cases "ends w cs = {}") (simp_all add: max.commute max.left_commute max.assoc)
  have ok: "datetime_add ?t (frame_duration (frame_items w c)) = Inr ?u"
    using Cons.prems by (simp add: datetime_add_def)
  have rest: "\<forall>c \<in> set cs. is_datetime (frame_start (frame_items w c) + frame_duration (frame_items w c))"
    using Cons.prems by simp
  show ?case
    using m n by (simp add: td_def ok Cons.IH [OF rest])
qed

lemma extent_loop_overflow:
  assumes "\<exists>c \<in> set cs. \<not> is_datetime (frame_start (fs c) + frame_duration (fs c))"
  shows "extent_loop fs cs s e = Inl OverflowError"
  using assms
proof (induction cs arbitrary: s e)
  case Nil
  then show ?case by simp
next
  case (Cons c cs)
  show ?case
  proof (cases "is_datetime (frame_start (fs c) + frame_duration (fs c))")
    case True
    with Cons.prems
    have "\<exists>c \<in> set cs. \<not> is_datetime (frame_start (fs c) + frame_duration (fs c))"
      by auto
    then show ?thesis
      using True by (simp add: td_def datetime_add_def Cons.IH)
  next
    case False
    then show ?thesis by (simp add: td_def datetime_add_def)
  qed
qed

text \<open>The difference of two datetimes is always a timedelta.\<close>

lemma datetime_diff_in_range:
  "is_datetime e \<Longrightarrow> is_datetime s \<Longrightarrow> datetime_diff e s = Inr (e - s)"
  by (simp add: datetime_diff_def is_datetime_def is_timedelta_def datetime_max_def
        timedelta_min_def timedelta_max_def)

lemma time_extent_empty:
  "frames (tracks w self) = [] \<Longrightarrow> time_extent_of_frames w self = Inr (None, None)"
  by (simp add: time_extent_of_frames_def iter_frame_children_def)

lemma time_extent_in_range:
  assumes ne: "frames (tracks w self) \<noteq> []"
    and st: "\<forall>c \<in> set (frames (tracks w self)). is_datetime (frame_start (frame_items w c))"
    and en: "\<forall>c \<in> set (frames (tracks w self)).
               is_datetime (frame_start (frame_items w c) + frame_duration (frame_items w c))"
  shows "time_extent_of_frames w self =
     Inr (Some (Min (starts w (frames (tracks w self)))),
          Some (Max (ends w (frames (tracks w self))) - Min (starts w (frames (tracks w self)))))"
proof -
  let ?fs = "frames (tracks w self)"
  obtain c cs where fs: "?fs = c # cs"
    using ne by (cases ?fs) auto
  have rest: "\<forall>c \<in> set cs. is_datetime (frame_start (frame_items w c) + frame_duration (frame_items w c))"
    using en by (simp add: fs)
  have first: "datetime_add (frame_start (frame_items w c)) (frame_duration (frame_items w c)) =
               Inr (frame_start (frame_items w c) + frame_duration (frame_items w c))"
    using en by (simp add: fs datetime_add_def)
  have loop: "extent_loop (frame_items w) ?fs None None =
        Inr (Some (Min (starts w ?fs)), Some (Max (ends w ?fs)))"
    by (simp add: fs td_def first extent_loop_in_range [OF rest])
  have "starts w ?fs \<noteq> {}" "ends w ?fs \<noteq> {}"
    using ne by simp_all
  then have "Min (starts w ?fs) \<in> starts w ?fs" "Max (ends w ?fs) \<in> ends w ?fs"
    using Min_in [of "starts w ?fs"] Max_in [of "ends w ?fs"] by blast+
  then have "is_datetime (Min (starts w ?fs))" "is_datetime (Max (ends w ?fs))"
    using st en by auto
  then have "datetime_diff (Max (ends w ?fs)) (Min (starts w ?fs)) =
             Inr (Max (ends w ?fs) - Min (starts w ?fs))"
    by (rule datetime_diff_in_range [rotated])
  then show ?thesis
    by (simp add: time_extent_of_frames_def iter_frame_children_def loop)
qed

lemma time_extent_overflow:
  assumes "\<exists>c \<in> set (frames (tracks w self)).
             \<not> is_datetime (frame_start (frame_items w c) + frame_duration (frame_items w c))"
  shows "time_extent_of_frames w self = Inl OverflowError"
  by (simp add: time_extent_of_frames_def iter_frame_children_def extent_loop_overflow [OF assms])

text \<open>
  The extent reads the frames through their start and duration only, and the track through
  its list of frames only. Its two components are \<^verbatim>\<open>None\<close> together.
\<close>

lemma extent_loop_cong:
  "\<forall>c \<in> set cs. td (fs c) = td (fs' c) \<Longrightarrow> extent_loop fs cs s e = extent_loop fs' cs s e"
  by (induction cs arbitrary: s e) (simp_all split: prod.splits sum.splits)

lemma time_extent_cong:
  assumes "frames (tracks w' ta) = frames (tracks w ta)"
    and "\<forall>c. td (frame_items w' c) = td (frame_items w c)"
  shows "time_extent_of_frames w' ta = time_extent_of_frames w ta"
proof -
  have "extent_loop (frame_items w') (frames (tracks w ta)) None None =
        extent_loop (frame_items w) (frames (tracks w ta)) None None"
    by (rule extent_loop_cong) (simp add: assms(2))
  then show ?thesis
    by (simp add: time_extent_of_frames_def iter_frame_children_def assms(1))
qed

lemma time_extent_shape:
  assumes "time_extent_of_frames w self = Inr (a, b)"
  shows "(a = None) = (b = None)"
  using assms
  by (auto simp: time_extent_of_frames_def split: sum.splits prod.splits option.splits)

text \<open>The objects of the concrete scene.\<close>

lemma example_frames:
  "frame_items example_world 0 = example_frame 0 (epoch + 7000000) 3000000"
  "frame_items example_world (Suc 0) = example_frame 0 (epoch + 5000000) 1000000"
  "frame_items example_world 2 = example_frame 2 (datetime_max - 1000000) 2000000"
  "frame_items example_world 3 = example_frame 3 1800000000 1000000"
  by (simp_all add: example_world_def)

lemma example_tracks:
  "tracks example_world 0 = example_track [0, 1] 1"
  "tracks example_world (Suc 0) = example_track [] 0"
  "tracks example_world 2 = example_track [2] 2"
  "tracks example_world 3 = example_track [3] 3"
  by (simp_all add: example_world_def)

text \<open>
  Claim C2, as amended. On a track with no frames \<^verbatim>\<open>time_extent_of_frames\<close>
  returns (None, None). On a track with frames, each of whose ends (start + duration) is a
  datetime, it returns (the least start, the greatest end minus the least start). When the
  end of some frame leaves the range of \<^verbatim>\<open>datetime\<close> it raises
  \<^verbatim>\<open>OverflowError\<close>. The hypothesis says that the start of every frame is a
  datetime, as its type has it.
\<close>

theorem time_extent_of_frames_in_range:
  assumes "\<forall>c \<in> set (frames (tracks w self)). is_datetime (frame_start (frame_items w c))"
  shows "time_extent_of_frames w self =
     (if frames (tracks w self) = [] then Inr (None, None)
      else if \<forall>c \<in> set (frames (tracks w self)).
                is_datetime (frame_start (frame_items w c) + frame_duration (frame_items w c))
      then Inr (Some (Min (starts w (frames (tracks w self)))),
                Some (Max (ends w (frames (tracks w self)))
                      - Min (starts w (frames (tracks w self)))))
      else Inl OverflowError)"
proof (cases "frames (tracks w self) = []")
  case True
  then show ?thesis by (simp add: time_extent_empty)
next
  case ne: False
  show ?thesis
  proof (cases "\<forall>c \<in> set (frames (tracks w self)).
                  is_datetime (frame_start (frame_items w c) + frame_duration (frame_items w c))")
    case True
    show ?thesis
      using time_extent_in_range [OF ne assms True] ne True by simp
  next
    case False
    then have "\<exists>c \<in> set (frames (tracks w self)).
                 \<not> is_datetime (frame_start (frame_items w c) + frame_duration (frame_items w c))"
      by simp
    from time_extent_overflow [OF this] show ?thesis
      using ne False by simp
  qed
qed

theorem time_extent_of_frames_in_range_witness:
  "is_datetime (frame_start (frame_items example_world 0)) \<and>
   is_datetime (frame_start (frame_items example_world 1)) \<and>
   is_datetime (frame_start (frame_items example_world 2)) \<and>
   time_extent_of_frames example_world 0 = Inr (Some (epoch + 5000000), Some 5000000) \<and>
   time_extent_of_frames example_world 1 = Inr (None, None) \<and>
   time_extent_of_frames example_world 2 = Inl OverflowError"
proof -
  note defs = example_frames example_tracks example_track_def example_frame_def
    is_datetime_def datetime_max_def epoch_def
  have v0: "\<forall>c \<in> set (frames (tracks example_world 0)). is_datetime (frame_start (frame_items example_world c))"
    by (simp add: defs)
  have v1: "\<forall>c \<in> set (frames (tracks example_world 1)). is_datetime (frame_start (frame_items example_world c))"
    by (simp add: defs)
  have v2: "\<forall>c \<in> set (frames (tracks example_world 2)). is_datetime (frame_start (frame_items example_world c))"
    by (simp add: defs)
  have a: "time_extent_of_frames example_world 0 = Inr (Some (epoch + 5000000), Some 5000000)"
    using time_extent_of_frames_in_range [OF v0] by (simp add: defs)
  have b: "time_extent_of_frames example_world 1 = Inr (None, None)"
    using time_extent_of_frames_in_range [OF v1] by (simp add: defs)
  have c: "time_extent_of_frames example_world 2 = Inl OverflowError"
    using time_extent_of_frames_in_range [OF v2] by (simp add: defs)
  show ?thesis
    using a b c by (simp add: defs)
qed

text \<open>
  Claim C2 as stated, for every track with at least one frame, fails: track 2 owns one
  frame, which starts one second before \<^verbatim>\<open>datetime.max\<close> and is two seconds
  long, and the call raises \<^verbatim>\<open>OverflowError\<close> at \<^verbatim>\<open>t + d\<close>.
\<close>

theorem time_extent_of_frames_overflows:
  "frames (tracks example_world 2) = [2] \<and>
   is_datetime (frame_start (frame_items example_world 2)) \<and>
   is_timedelta (frame_duration (frame_items example_world 2)) \<and>
   time_extent_of_frames example_world 2 = Inl OverflowError"
  by (simp add: time_extent_of_frames_def iter_frame_children_def td_def datetime_add_def
        example_frames example_tracks example_track_def example_frame_def
        is_datetime_def is_timedelta_def datetime_max_def timedelta_min_def timedelta_max_def)

subsection \<open>Position and bounds of a track\<close>

lemma update_pos_bounds_result:
  assumes "time_extent_of_frames w self = Inr (Some t, Some d)"
    and "is_datetime (t - left_pad)"
    and "is_timedelta (d + left_pad)"
    and "is_timedelta (d + left_pad + right_pad)"
  shows "update_pos_bounds cm w self =
     Inr (w\<lparr>tracks := (tracks w)(self := (tracks w self)
            \<lparr>track_geometry_changes := Suc (track_geometry_changes (tracks w self)),
             track_pos := QPointF (fst (calc_pixel_x_pos (track_scale (tracks w self)) t (Some d)))
                            (of_int (track_z (tracks w self)) * DEFAULT_TRACK_HEIGHT cm
                              + DEFAULT_TRACK_HEIGHT cm / 2),
             track_bounds :=
               QRectF (fst (calc_pixel_x_pos (track_scale (tracks w self)) (t - left_pad)
                              (Some (d + left_pad + right_pad)))
                       - fst (calc_pixel_x_pos (track_scale (tracks w self)) t (Some d)))
                      (- DEFAULT_TRACK_HEIGHT cm / 2)
                      (snd (calc_pixel_x_pos (track_scale (tracks w self)) (t - left_pad)
                              (Some (d + left_pad + right_pad))))
                      (DEFAULT_TRACK_HEIGHT cm)\<rparr>)\<rparr>)"
  using assms
  by (simp add: update_pos_bounds_def datetime_sub_def timedelta_add_def Let_def
        split: prod.splits)

lemma update_pos_bounds_pad_overflow:
  assumes "time_extent_of_frames w self = Inr (Some t, Some d)"
    and "\<not> is_datetime (t - left_pad)"
  shows "update_pos_bounds cm w self = Inl OverflowError"
  using assms
  by (simp add: update_pos_bounds_def datetime_sub_def Let_def split: prod.splits)

lemma padded_duration_in_range:
  assumes "is_datetime e" and "is_datetime s"
  shows "is_timedelta (e - s + left_pad)" and "is_timedelta (e - s + left_pad + right_pad)"
  using assms
  by (simp_all add: is_datetime_def is_timedelta_def datetime_max_def timedelta_min_def
        timedelta_max_def left_pad_def right_pad_def)

text \<open>
  Claim C1, as amended. Take a track with at least one frame, (t, d) the least start and
  the greatest end minus the least start of its frames. When every end is a datetime and
  t - left_pad is a datetime, \<^verbatim>\<open>update_pos_bounds\<close> returns and leaves the track
  at position (frames_span.x, z * DEFAULT_TRACK_HEIGHT + half the track height), with a
  bounds rectangle that starts at padded_span.x - frames_span.x, is padded_span.w wide, and
  runs vertically from minus half to plus half the track height; frames_span is the
  transform's span of (t, d) and padded_span its span of
  (t - left_pad, d + left_pad + right_pad). Otherwise it raises
  \<^verbatim>\<open>OverflowError\<close>. The second hypothesis says that the start of every frame
  is a datetime, as its type has it.
\<close>

theorem update_pos_bounds_geometry_in_range:
  assumes ne: "frames (tracks w self) \<noteq> []"
    and st: "\<forall>c \<in> set (frames (tracks w self)). is_datetime (frame_start (frame_items w c))"
  shows "(let fs = frames (tracks w self);
              t = Min (starts w fs);
              d = Max (ends w fs) - t;
              sc = track_scale (tracks w self);
              H = DEFAULT_TRACK_HEIGHT cm;
              frames_span = calc_pixel_x_pos sc t (Some d);
              padded_span = calc_pixel_x_pos sc (t - left_pad) (Some (d + left_pad + right_pad));
              in_range =
                ((\<forall>c \<in> set fs. is_datetime (frame_start (frame_items w c)
                                              + frame_duration (frame_items w c))) \<and>
                 is_datetime (t - left_pad))
          in (in_range \<longrightarrow>
                (\<exists>w'. update_pos_bounds cm w self = Inr w' \<and>
                   track_pos (tracks w' self) =
                     QPointF (fst frames_span) (of_int (track_z (tracks w self)) * H + H / 2) \<and>
                   rect_left (track_bounds (tracks w' self)) = fst padded_span - fst frames_span \<and>
                   rect_width (track_bounds (tracks w' self)) = snd padded_span \<and>
                   rect_top (track_bounds (tracks w' self)) = - (H / 2) \<and>
                   rect_top (track_bounds (tracks w' self))
                     + rect_height (track_bounds (tracks w' self)) = H / 2)) \<and>
             (\<not> in_range \<longrightarrow> update_pos_bounds cm w self = Inl OverflowError))"
proof -
  let ?fs = "frames (tracks w self)"
  let ?t = "Min (starts w ?fs)"
  let ?d = "Max (ends w ?fs) - ?t"
  let ?ends = "\<forall>c \<in> set ?fs. is_datetime (frame_start (frame_items w c)
                                            + frame_duration (frame_items w c))"
  have good: "\<exists>w'. update_pos_bounds cm w self = Inr w' \<and>
      track_pos (tracks w' self) =
        QPointF (fst (calc_pixel_x_pos (track_scale (tracks w self)) ?t (Some ?d)))
          (of_int (track_z (tracks w self)) * DEFAULT_TRACK_HEIGHT cm + DEFAULT_TRACK_HEIGHT cm / 2) \<and>
      rect_left (track_bounds (tracks w' self)) =
        fst (calc_pixel_x_pos (track_scale (tracks w self)) (?t - left_pad)
               (Some (?d + left_pad + right_pad)))
        - fst (calc_pixel_x_pos (track_scale (tracks w self)) ?t (Some ?d)) \<and>
      rect_width (track_bounds (tracks w' self)) =
        snd (calc_pixel_x_pos (track_scale (tracks w self)) (?t - left_pad)
               (Some (?d + left_pad + right_pad))) \<and>
      rect_top (track_bounds (tracks w' self)) = - (DEFAULT_TRACK_HEIGHT cm / 2) \<and>
      rect_top (track_bounds (tracks w' self)) + rect_height (track_bounds (tracks w' self)) =
        DEFAULT_TRACK_HEIGHT cm / 2"
    if en: ?ends and pad: "is_datetime (?t - left_pad)"
  proof -
    note ext = time_extent_in_range [OF ne st en]
    have "starts w ?fs \<noteq> {}" "ends w ?fs \<noteq> {}"
      using ne by simp_all
    then have "?t \<in> starts w ?fs" "Max (ends w ?fs) \<in> ends w ?fs"
      using Min_in [of "starts w ?fs"] Max_in [of "ends w ?fs"] by blast+
    then have dt: "is_datetime (Max (ends w ?fs))" "is_datetime ?t"
      using st en by auto
    note res = update_pos_bounds_result
                 [OF ext pad padded_duration_in_range(1) [OF dt] padded_duration_in_range(2) [OF dt]]
    show ?thesis
      by (simp add: res)
  qed
  have bad: "update_pos_bounds cm w self = Inl OverflowError"
    if "\<not> (?ends \<and> is_datetime (?t - left_pad))"
  proof (cases ?ends)
    case True
    with that have "\<not> is_datetime (?t - left_pad)" by simp
    from update_pos_bounds_pad_overflow [OF time_extent_in_range [OF ne st True] this]
    show ?thesis .
  next
    case False
    then have "\<exists>c \<in> set ?fs. \<not> is_datetime (frame_start (frame_items w c)
                                               + frame_duration (frame_items w c))"
      by simp
    from time_extent_overflow [OF this] show ?thesis
      by (simp add: update_pos_bounds_def)
  qed
  show ?thesis
    unfolding Let_def using good bad by blast
qed

theorem update_pos_bounds_geometry_in_range_witness:
  "frames (tracks example_world 0) \<noteq> [] \<and>
   is_datetime (frame_start (frame_items example_world 0)) \<and>
   is_datetime (frame_start (frame_items example_world 1)) \<and>
   (\<exists>w'. update_pos_bounds example_common example_world 0 = Inr w' \<and>
        track_pos (tracks w' 0) = QPointF 10 72 \<and>
        rect_left (track_bounds (tracks w' 0)) = - 7200 \<and>
        rect_width (track_bounds (tracks w' 0)) = 7810 \<and>
        rect_top (track_bounds (tracks w' 0)) = - 24 \<and>
        rect_top (track_bounds (tracks w' 0)) + rect_height (track_bounds (tracks w' 0)) = 24) \<and>
   frames (tracks example_world 3) \<noteq> [] \<and>
   is_datetime (frame_start (frame_items example_world 3)) \<and>
   update_pos_bounds example_common example_world 3 = Inl OverflowError"
proof -
  note defs = example_frames example_tracks example_track_def example_frame_def
    is_datetime_def datetime_max_def epoch_def
  have ne0: "frames (tracks example_world 0) \<noteq> []" and ne3: "frames (tracks example_world 3) \<noteq> []"
    by (simp_all add: defs)
  have v0: "\<forall>c \<in> set (frames (tracks example_world 0)). is_datetime (frame_start (frame_items example_world c))"
    and v3: "\<forall>c \<in> set (frames (tracks example_world 3)). is_datetime (frame_start (frame_items example_world c))"
    by (simp_all add: defs)
  have a: "\<exists>w'. update_pos_bounds example_common example_world 0 = Inr w' \<and>
        track_pos (tracks w' 0) = QPointF 10 72 \<and>
        rect_left (track_bounds (tracks w' 0)) = - 7200 \<and>
        rect_width (track_bounds (tracks w' 0)) = 7810 \<and>
        rect_top (track_bounds (tracks w' 0)) = - 24 \<and>
        rect_top (track_bounds (tracks w' 0)) + rect_height (track_bounds (tracks w' 0)) = 24"
    using update_pos_bounds_geometry_in_range [OF ne0 v0, of example_common]
    by (auto simp: defs example_common_def coord_transform_def left_pad_def right_pad_def Let_def)
  have b: "update_pos_bounds example_common example_world 3 = Inl OverflowError"
    using update_pos_bounds_geometry_in_range [OF ne3 v3, of example_common]
    by (simp add: defs left_pad_def Let_def)
  show ?thesis
    using ne0 ne3 a b by (simp add: defs)
qed

text \<open>
  Claim C1 as stated, for every track with at least one frame, fails: track 3 owns one
  frame, which starts half an hour after \<^verbatim>\<open>datetime.min\<close>. Its extent is
  computed, and \<^verbatim>\<open>t - self._left_pad\<close> then raises
  \<^verbatim>\<open>OverflowError\<close>.
\<close>

theorem update_pos_bounds_overflows:
  "frames (tracks example_world 3) = [3] \<and>
   is_datetime (frame_start (frame_items example_world 3)) \<and>
   is_timedelta (frame_duration (frame_items example_world 3)) \<and>
   time_extent_of_frames example_world 3 = Inr (Some 1800000000, Some 1000000) \<and>
   update_pos_bounds example_common example_world 3 = Inl OverflowError"
  by (simp add: update_pos_bounds_def time_extent_of_frames_def iter_frame_children_def td_def
        datetime_add_def datetime_diff_def datetime_sub_def Let_def left_pad_def
        example_frames example_tracks example_track_def example_frame_def
        is_datetime_def is_timedelta_def datetime_max_def timedelta_min_def timedelta_max_def
        split: prod.splits)

text \<open>
  Claim C7. For a track with no frames the extent is (None, None), and
  \<^verbatim>\<open>update_pos_bounds\<close> returns without raising and leaves the whole world, so
  the track's position and bounds, as it found it.
\<close>

theorem update_pos_bounds_empty_track:
  assumes "frames (tracks w self) = []"
  shows "time_extent_of_frames w self = Inr (None, None) \<and> update_pos_bounds cm w self = Inr w"
  using time_extent_empty [OF assms] by (simp add: update_pos_bounds_def)

theorem update_pos_bounds_empty_track_witness:
  "frames (tracks example_world 1) = [] \<and>
   time_extent_of_frames example_world 1 = Inr (None, None) \<and>
   update_pos_bounds example_common example_world 1 = Inr example_world"
proof -
  have e: "frames (tracks example_world 1) = []"
    by (simp add: example_world_def example_track_def)
  show ?thesis
    using e update_pos_bounds_empty_track [OF e, of example_common] by simp
qed

text \<open>
  A second call of \<^verbatim>\<open>update_pos_bounds\<close>, with nothing changed in between,
  computes the same position and bounds again. On a track with frames it also issues
  \<^verbatim>\<open>prepareGeometryChange\<close> again: the call is not guarded by a comparison.
\<close>

lemma update_pos_bounds_keeps_extent:
  assumes "update_pos_bounds cm w self = Inr w1"
  shows "time_extent_of_frames w1 ta = time_extent_of_frames w ta"
proof (rule time_extent_cong)
  show "frames (tracks w1 ta) = frames (tracks w ta)"
    using assms
    by (auto simp: update_pos_bounds_def Let_def
          split: sum.splits prod.splits option.splits)
  show "\<forall>c. td (frame_items w1 c) = td (frame_items w c)"
    using assms
    by (auto simp: update_pos_bounds_def Let_def
          split: sum.splits prod.splits option.splits)
qed

lemma update_pos_bounds_again:
  assumes "update_pos_bounds cm w self = Inr w1"
  shows "\<exists>w2. update_pos_bounds cm w1 self = Inr w2 \<and>
           track_bounds (tracks w2 self) = track_bounds (tracks w1 self) \<and>
           track_pos (tracks w2 self) = track_pos (tracks w1 self) \<and>
           track_geometry_changes (tracks w2 self) =
             track_geometry_changes (tracks w1 self)
               + (if time_extent_of_frames w self = Inr (None, None) then 0 else 1)"
proof -
  have ext1: "time_extent_of_frames w1 self = time_extent_of_frames w self"
    by (rule update_pos_bounds_keeps_extent [OF assms])
  show ?thesis
    using assms ext1
    by (auto simp: update_pos_bounds_def Let_def dest: time_extent_shape
          split: sum.splits prod.splits option.splits)
qed

text \<open>
  \<^verbatim>\<open>QFrameItem.update_bounds\<close>, the recomputation of a frame's bounds, does
  guard the notification: a second call changes nothing at all.
\<close>

lemma qFuzzyCompare_refl: "qFuzzyCompare p p"
  by (simp add: qFuzzyCompare_def)

lemma update_bounds_again:
  "update_bounds cm (update_bounds cm w self) self = update_bounds cm w self"
  by (simp add: update_bounds_def Let_def QRectF_ne_def qFuzzyCompare_refl)

text \<open>
  Claim C3. Calling \<^verbatim>\<open>update_pos_bounds\<close> twice with no change in between
  yields the same bounds both times, and the second call issues no geometry-change
  notification. The first half holds. The second half fails on the code: on track 0 of the
  concrete scene, the bounds and the position after the second call are those after the
  first, and the count of \<^verbatim>\<open>prepareGeometryChange\<close> calls goes from 1 to 2.
\<close>

theorem update_pos_bounds_twice_notifies_again:
  "\<exists>w1 w2. update_pos_bounds example_common example_world 0 = Inr w1 \<and>
           update_pos_bounds example_common w1 0 = Inr w2 \<and>
           track_bounds (tracks w1 0) = QRectF (- 7200) (- 24) 7810 48 \<and>
           track_bounds (tracks w2 0) = track_bounds (tracks w1 0) \<and>
           track_pos (tracks w2 0) = track_pos (tracks w1 0) \<and>
           track_geometry_changes (tracks w1 0) = 1 \<and>
           track_geometry_changes (tracks w2 0) = 2"
proof -
  note defs = example_frames example_tracks example_track_def example_frame_def
    is_datetime_def datetime_max_def epoch_def
  have ne: "frames (tracks example_world 0) \<noteq> []"
    by (simp add: defs)
  have st: "\<forall>c \<in> set (frames (tracks example_world 0)). is_datetime (frame_start (frame_items example_world c))"
    and en: "\<forall>c \<in> set (frames (tracks example_world 0)).
               is_datetime (frame_start (frame_items example_world c)
                            + frame_duration (frame_items example_world c))"
    by (simp_all add: defs)
  have ext: "time_extent_of_frames example_world 0 = Inr (Some (epoch + 5000000), Some 5000000)"
    using time_extent_in_range [OF ne st en] by (simp add: defs)
  have res: "\<exists>w1. update_pos_bounds example_common example_world 0 = Inr w1 \<and>
      track_bounds (tracks w1 0) = QRectF (- 7200) (- 24) 7810 48 \<and>
      track_geometry_changes (tracks w1 0) = 1"
    by (simp add: update_pos_bounds_result [OF ext] is_timedelta_def timedelta_min_def
          timedelta_max_def defs example_common_def coord_transform_def left_pad_def right_pad_def)
  then obtain w1 where w1: "update_pos_bounds example_common example_world 0 = Inr w1"
    and b1: "track_bounds (tracks w1 0) = QRectF (- 7200) (- 24) 7810 48"
    and g1: "track_geometry_changes (tracks w1 0) = 1"
    by blast
  obtain w2 where w2: "update_pos_bounds example_common w1 0 = Inr w2"
    and b2: "track_bounds (tracks w2 0) = track_bounds (tracks w1 0)"
    and p2: "track_pos (tracks w2 0) = track_pos (tracks w1 0)"
    and g2: "track_geometry_changes (tracks w2 0) =
               track_geometry_changes (tracks w1 0)
                 + (if time_extent_of_frames example_world 0 = Inr (None, None) then 0 else 1)"
    using update_pos_bounds_again [OF w1] by blast
  have "track_geometry_changes (tracks w2 0) = 2"
    using g2 g1 by (simp add: ext)
  then show ?thesis
    using w1 w2 b1 b2 p2 g1 by blast
qed

subsection \<open>Positions of the frames\<close>

lemma position_loop_other:
  "f \<notin> set fl \<Longrightarrow> position_loop sc myx fl fs f = fs f"
  by (induction fl arbitrary: fs) (auto split: prod.splits)

lemma position_loop_pos:
  "f \<in> set fl \<Longrightarrow>
   frame_pos (position_loop sc myx fl fs f) =
     QPointF (fst (calc_pixel_x_pos sc (frame_start (fs f)) None) - myx) 0"
proof (induction fl arbitrary: fs)
  case Nil
  then show ?case by simp
next
  case (Cons a fl)
  obtain x y where xy: "calc_pixel_x_pos sc (frame_start (fs a)) None = (x, y)"
    by (cases "calc_pixel_x_pos sc (frame_start (fs a)) None")
  define fs' where "fs' = fs(a := (fs a)\<lparr>frame_geometry_changes := Suc (frame_geometry_changes (fs a)),
                                        frame_pos := QPointF (x - myx) 0\<rparr>)"
  have step: "position_loop sc myx (a # fl) fs = position_loop sc myx fl fs'"
    by (simp add: xy fs'_def)
  have start: "frame_start (fs' f) = frame_start (fs f)"
    by (simp add: fs'_def)
  show ?case
  proof (cases "f \<in> set fl")
    case True
    show ?thesis
      using Cons.IH [OF True, of fs'] by (simp only: step start)
  next
    case False
    with Cons.prems have fa: "f = a" by simp
    have "position_loop sc myx fl fs' f = fs' f"
      by (rule position_loop_other [OF False])
    then show ?thesis
      by (simp add: step fa fs'_def xy)
  qed
qed

text \<open>
  Claim C4, as amended. \<^verbatim>\<open>update_frame_positions\<close> positions the frames it
  is given: the track's own frames when it is called with no frame, otherwise exactly the
  frames passed. Every frame positioned ends at
  (\<^verbatim>\<open>calc_pixel_x_pos(frame.t)\<close>'s x minus the track's scene x, 0); every other frame,
  owned or not, is left as it was. The track itself, so its scene x, is not changed.
\<close>

theorem update_frame_positions_places_frames:
  "(let w' = update_frame_positions w self args;
        positioned = (if args = [] then frames (tracks w self) else args);
        anchor_x = point_x (track_pos (tracks w self))
    in tracks w' = tracks w \<and>
       (f \<in> set positioned \<longrightarrow>
          frame_pos (frame_items w' f) =
            QPointF (fst (calc_pixel_x_pos (track_scale (tracks w self))
                            (frame_start (frame_items w f)) None) - anchor_x) 0) \<and>
       (f \<notin> set positioned \<longrightarrow> frame_items w' f = frame_items w f))"
  by (simp add: update_frame_positions_def iter_frame_children_def Let_def
        position_loop_pos position_loop_other)

theorem update_frame_positions_places_frames_witness:
  "frame_pos (frame_items (update_frame_positions example_world 0 []) 0) = QPointF 14 0 \<and>
   frame_pos (frame_items (update_frame_positions example_world 0 []) 1) = QPointF 10 0 \<and>
   frame_pos (frame_items (update_frame_positions example_world 0 [0]) 0) = QPointF 14 0 \<and>
   frame_items (update_frame_positions example_world 0 [0]) 1 = frame_items example_world 1"
proof -
  have tr: "tracks example_world 0 = example_track [0, 1] 1"
    by (simp add: example_world_def)
  have f0: "frame_items example_world 0 = example_frame 0 (epoch + 7000000) 3000000"
    and f1: "frame_items example_world (Suc 0) = example_frame 0 (epoch + 5000000) 1000000"
    by (simp_all add: example_world_def)
  note defs = Let_def tr f0 f1 example_track_def example_frame_def coord_transform_def epoch_def
  have a: "frame_pos (frame_items (update_frame_positions example_world 0 []) 0) = QPointF 14 0"
    using update_frame_positions_places_frames [of example_world 0 "[]" 0]
    by (simp add: defs)
  have b: "frame_pos (frame_items (update_frame_positions example_world 0 []) 1) = QPointF 10 0"
    using update_frame_positions_places_frames [of example_world 0 "[]" 1]
    by (simp add: defs)
  have c: "frame_pos (frame_items (update_frame_positions example_world 0 [0]) 0) = QPointF 14 0"
    using update_frame_positions_places_frames [of example_world 0 "[0]" 0]
    by (simp add: defs)
  have d: "frame_items (update_frame_positions example_world 0 [0]) 1 = frame_items example_world 1"
    using update_frame_positions_places_frames [of example_world 0 "[0]" 1]
    by (simp add: defs)
  show ?thesis
    using a b c d by simp
qed

text \<open>
  Claim C4 as stated, for every owned frame after any run, fails: called on track 0 with
  frame 0 alone, the method leaves frame 1, which track 0 owns, at Qt's default position
  (0, 0), while its start maps to x = 10.
\<close>

theorem update_frame_positions_skips_frames_not_passed:
  "1 \<in> set (frames (tracks example_world 0)) \<and>
   (let w' = update_frame_positions example_world 0 [0]
    in frame_pos (frame_items w' 1) \<noteq>
         QPointF (fst (calc_pixel_x_pos (track_scale (tracks w' 0))
                         (frame_start (frame_items w' 1)) None)
                  - point_x (track_pos (tracks w' 0))) 0)"
  by (simp add: update_frame_positions_def Let_def example_world_def example_track_def
        example_frame_def coord_transform_def epoch_def)

subsection \<open>Drag and drop\<close>

text \<open>
  Claim C5, as amended. The decision of \<^verbatim>\<open>dragEnterEvent\<close> is a predicate on
  the kinds of the payload: the event is accepted exactly when it carries the colormap kind
  or the track kind, so two events with the same kinds get the same decision whatever their
  contents, the track and the world. The handler is not free of effects: it sets the
  track's \<^verbatim>\<open>_dragging\<close> flag. That is all it writes, so a further call changes
  nothing more.
\<close>

theorem dragEnterEvent_decides_by_kind:
  "(let accepts = (\<lambda>tw ta ev. event_accepted (snd (dragEnterEvent cm tw ta ev)));
        w1 = fst (dragEnterEvent cm w self event)
    in accepts w self event =
         (hasFormat (event_mimeData event) (MIMETYPE_TIMELINE_COLORMAP cm) \<or>
          hasFormat (event_mimeData event) (MIMETYPE_TIMELINE_TRACK cm)) \<and>
       (set (map fst (event_mimeData event)) = set (map fst (event_mimeData event')) \<longrightarrow>
          accepts w self event = accepts w' self' event') \<and>
       w1 = w\<lparr>tracks := (tracks w)(self := (tracks w self)\<lparr>track_dragging := True\<rparr>)\<rparr> \<and>
       fst (dragEnterEvent cm w1 self event') = w1)"
proof -
  have acc: "event_accepted (snd (dragEnterEvent cm tw ta ev)) =
        (hasFormat (event_mimeData ev) (MIMETYPE_TIMELINE_COLORMAP cm) \<or>
         hasFormat (event_mimeData ev) (MIMETYPE_TIMELINE_TRACK cm))" for tw ta ev
    by (simp add: dragEnterEvent_def setAccepted_def Let_def)
  have st: "fst (dragEnterEvent cm tw ta ev) =
        tw\<lparr>tracks := (tracks tw)(ta := (tracks tw ta)\<lparr>track_dragging := True\<rparr>)\<rparr>" for tw ta ev
    by (simp add: dragEnterEvent_def Let_def)
  have kinds: "set (map fst (event_mimeData event)) = set (map fst (event_mimeData event')) \<Longrightarrow>
        event_accepted (snd (dragEnterEvent cm w self event)) =
        event_accepted (snd (dragEnterEvent cm w' self' event'))"
    by (simp only: acc hasFormat_def)
  have again: "fst (dragEnterEvent cm (fst (dragEnterEvent cm w self event)) self event') =
        fst (dragEnterEvent cm w self event)"
    by (simp add: st)
  show ?thesis
    unfolding Let_def using acc [of w self event] kinds st [of w self event] again by blast
qed

theorem dragEnterEvent_decides_by_kind_witness:
  "event_accepted (snd (dragEnterEvent example_common example_world 0 track_drop)) \<and>
   \<not> event_accepted (snd (dragEnterEvent example_common example_world 0 plain_text_drop)) \<and>
   event_accepted (snd (dragEnterEvent example_common example_world 1
      (track_drop\<lparr>event_mimeData := [(''application/sift.timeline.track'', ''track 7'')]\<rparr>))) \<and>
   track_dragging (tracks (fst (dragEnterEvent example_common example_world 0 track_drop)) 0)"
proof -
  let ?other = "track_drop\<lparr>event_mimeData := [(''application/sift.timeline.track'', ''track 7'')]\<rparr>"
  note t = dragEnterEvent_decides_by_kind
             [of example_common example_world 0 track_drop ?other example_world 1,
              unfolded Let_def]
  note p = dragEnterEvent_decides_by_kind
             [of example_common example_world 0 plain_text_drop plain_text_drop example_world 0,
              unfolded Let_def]
  have a: "event_accepted (snd (dragEnterEvent example_common example_world 0 track_drop))"
    using conjunct1 [OF t] by (simp add: hasFormat_def track_drop_def example_common_def)
  have b: "\<not> event_accepted (snd (dragEnterEvent example_common example_world 0 plain_text_drop))"
    using conjunct1 [OF p] by (simp add: hasFormat_def plain_text_drop_def example_common_def)
  have same: "set (map fst (event_mimeData track_drop)) = set (map fst (event_mimeData ?other))"
    by (simp add: track_drop_def)
  have c: "event_accepted (snd (dragEnterEvent example_common example_world 1 ?other))"
    using conjunct1 [OF conjunct2 [OF t]] same a by blast
  have d: "track_dragging (tracks (fst (dragEnterEvent example_common example_world 0 track_drop)) 0)"
    using conjunct1 [OF conjunct2 [OF conjunct2 [OF t]]] by simp
  show ?thesis
    using a b c d by blast
qed

text \<open>
  Claim C5 as stated, that the query leaves the state of the track unchanged, fails: the
  flag of track 0 is clear before the call and set after it.
\<close>

theorem dragEnterEvent_sets_dragging:
  "\<not> track_dragging (tracks example_world 0) \<and>
   track_dragging (tracks (fst (dragEnterEvent example_common example_world 0 plain_text_drop)) 0)"
  by (simp add: dragEnterEvent_def Let_def example_world_def example_track_def)

text \<open>
  Whenever \<^verbatim>\<open>recv_mime\<close> finds no colormap, \<^verbatim>\<open>dropEvent\<close> reaches
  \<^verbatim>\<open>pkl.loads(event.mimeData().data())\<close> and raises there, whatever else the
  event carries.
\<close>

lemma dropEvent_without_colormap:
  assumes "fst (recv_mime cm event (MIMETYPE_TIMELINE_COLORMAP cm)) = None"
  shows "\<exists>w1 ev2. dropEvent cm w self event = Inl (TypeError, w1, ev2)"
  using assms
  by (auto simp: dropEvent_def QMimeData_data_def Let_def split: prod.splits option.splits)

text \<open>
  Claim C6. A payload of neither kind is rejected by \<^verbatim>\<open>dragEnterEvent\<close>, and
  dropping it completes without an error. The first half holds. The second fails on the
  code: for an event that carries plain text only, \<^verbatim>\<open>dropEvent\<close> raises
  \<^verbatim>\<open>TypeError\<close>, with the world and the event untouched, before it reaches
  \<^verbatim>\<open>event.setAccepted(False)\<close>.
\<close>

theorem dropEvent_unrecognized_raises:
  "\<not> hasFormat (event_mimeData plain_text_drop) (MIMETYPE_TIMELINE_COLORMAP example_common) \<and>
   \<not> hasFormat (event_mimeData plain_text_drop) (MIMETYPE_TIMELINE_TRACK example_common) \<and>
   \<not> event_accepted (snd (dragEnterEvent example_common example_world 0 plain_text_drop)) \<and>
   dropEvent example_common example_world 0 plain_text_drop =
     Inl (TypeError, example_world, plain_text_drop)"
  by (simp add: dropEvent_def dragEnterEvent_def QMimeData_data_def hasFormat_def setAccepted_def
        Let_def plain_text_drop_def example_common_def)

text \<open>
  Claim C8. Dropping a track payload on a track moves the dropped track to just before the
  target, and dropping a track on itself succeeds. On the code neither happens: the payload
  of track 0 (z = 1) dropped on track 1 (z = 0) is accepted on entry, but
  \<^verbatim>\<open>insert_track_before\<close> leaves the world as it is and \<^verbatim>\<open>dropEvent\<close>
  then raises \<^verbatim>\<open>TypeError\<close>; so it does when the payload is dropped on track 0
  itself. The z of both tracks is what it was.
\<close>

theorem dropEvent_track_does_not_reorder:
  "hasFormat (event_mimeData track_drop) (MIMETYPE_TIMELINE_TRACK example_common) \<and>
   event_accepted (snd (dragEnterEvent example_common example_world 1 track_drop)) \<and>
   insert_track_before example_world 1 ''track 0'' = example_world \<and>
   dropEvent example_common example_world 1 track_drop =
     Inl (TypeError, example_world, track_drop) \<and>
   dropEvent example_common example_world 0 track_drop =
     Inl (TypeError, example_world, track_drop) \<and>
   track_z (tracks example_world 0) = 1 \<and> track_z (tracks example_world 1) = 0"
  by (simp add: dropEvent_def dragEnterEvent_def QMimeData_data_def hasFormat_def setAccepted_def
        insert_track_before_def Let_def track_drop_def example_common_def example_world_def
        example_track_def)

subsection \<open>Display state of a frame\<close>

lemma state_setter_td:
  "td (frame_items (state_setter w self new_state) c) = td (frame_items w c)"
  by (simp add: state_setter_def td_def Let_def)

text \<open>
  Claim C9. Assigning \<^verbatim>\<open>frame.state\<close> never lays anything out again: the
  frame's bounds and position are unchanged and no geometry change is announced for it, no
  track is changed (so the position and bounds of the owning track are unchanged), the
  extent of every track is unchanged, and no other frame is touched.
\<close>

theorem state_setter_repaints_only:
  "(let w' = state_setter w self new_state
    in frame_bounds (frame_items w' self) = frame_bounds (frame_items w self) \<and>
       frame_pos (frame_items w' self) = frame_pos (frame_items w self) \<and>
       frame_geometry_changes (frame_items w' self) = frame_geometry_changes (frame_items w self) \<and>
       tracks w' = tracks w \<and>
       (\<forall>ta. time_extent_of_frames w' ta = time_extent_of_frames w ta) \<and>
       (\<forall>other. other \<noteq> self \<longrightarrow> frame_items w' other = frame_items w other))"
proof -
  have tr: "tracks (state_setter w self new_state) = tracks w"
    by (simp add: state_setter_def Let_def)
  have ext: "time_extent_of_frames (state_setter w self new_state) ta = time_extent_of_frames w ta"
    for ta
    by (rule time_extent_cong) (simp_all add: tr state_setter_td)
  have fr: "frame_bounds (frame_items (state_setter w self new_state) self) =
              frame_bounds (frame_items w self) \<and>
            frame_pos (frame_items (state_setter w self new_state) self) =
              frame_pos (frame_items w self) \<and>
            frame_geometry_changes (frame_items (state_setter w self new_state) self) =
              frame_geometry_changes (frame_items w self)"
    by (simp add: state_setter_def Let_def)
  have oth: "other \<noteq> self \<Longrightarrow>
             frame_items (state_setter w self new_state) other = frame_items w other" for other
    by (simp add: state_setter_def Let_def)
  show ?thesis
    using tr ext fr oth by (simp add: Let_def)
qed

theorem state_setter_repaints_only_witness:
  "frame_state (frame_items (state_setter example_world 0 READY) 0) = READY \<and>
   frame_bounds (frame_items (state_setter example_world 0 READY) 0) = QRectF 0 0 0 0 \<and>
   frame_pos (frame_items (state_setter example_world 0 READY) 0) = QPointF 0 0 \<and>
   tracks (state_setter example_world 0 READY) = tracks example_world \<and>
   time_extent_of_frames (state_setter example_world 0 READY) 0 =
     time_extent_of_frames example_world 0 \<and>
   frame_items (state_setter example_world 0 READY) 1 = frame_items example_world 1"
proof -
  have f0: "frame_items example_world 0 = example_frame 0 (epoch + 7000000) 3000000"
    by (simp add: example_world_def)
  have st: "frame_state (frame_items (state_setter example_world 0 READY) 0) = READY"
    by (simp add: state_setter_def Let_def f0 example_frame_def)
  show ?thesis
    using st state_setter_repaints_only [of example_world 0 READY]
    by (simp add: Let_def f0 example_frame_def)
qed

text \<open>
  Claim C10. Assigning \<^verbatim>\<open>frame.state\<close> the value it already has changes
  nothing; in every case the frame ends in the new state, and \<^verbatim>\<open>update\<close> is
  called once if the new value differs from the old one and not at all otherwise.
\<close>

theorem state_setter_equal_is_noop:
  "(new_state = frame_state (frame_items w self) \<longrightarrow> state_setter w self new_state = w) \<and>
   frame_state (frame_items (state_setter w self new_state) self) = new_state \<and>
   frame_updates (frame_items (state_setter w self new_state) self) =
     frame_updates (frame_items w self)
       + (if new_state \<noteq> frame_state (frame_items w self) then 1 else 0)"
  by (simp add: state_setter_def Let_def)

theorem state_setter_equal_is_noop_witness:
  "state_setter example_world 0 UNKNOWN = example_world \<and>
   frame_updates (frame_items (state_setter example_world 0 UNKNOWN) 0) = 0 \<and>
   frame_state (frame_items (state_setter example_world 0 READY) 0) = READY \<and>
   frame_updates (frame_items (state_setter example_world 0 READY) 0) = 1"
proof -
  have f0: "frame_items example_world 0 = example_frame 0 (epoch + 7000000) 3000000"
    by (simp add: example_world_def)
  show ?thesis
    using state_setter_equal_is_noop [of UNKNOWN example_world 0]
          state_setter_equal_is_noop [of READY example_world 0]
    by (simp add: f0 example_frame_def)
qed

end
